theory Spec2Isabelle
  imports Main
begin

section \<open>The release driver (cmd/release/main.go)\<close>

text \<open>
  The driver reads its flags, opens a release manager on the working directory, computes
  the identifiers of the new releases (one per module), and then either prints them (dry
  run) or creates one tag per identifier and optionally pushes it.

  The package \<open>release\<close> that the driver calls is not part of the sources at hand. Its
  operations are therefore parameters of the model: a record \<open>release_pkg\<close> of functions,
  one per method the driver calls. Every theorem about \<open>main\<close> that quantifies over this
  record holds for any implementation of the package. A second part of the theory gives
  one implementation written from the specification, on which runs are evaluated.
\<close>

subsection \<open>Values\<close>

text \<open>A Go \<open>error\<close>: \<open>None\<close> is \<open>nil\<close>, \<open>Some e\<close> carries the text of \<open>err.Error()\<close>.\<close>

type_synonym error = "string option"

text \<open>\<open>go_git_ssh.PublicKeys\<close> as built by \<open>loadKeys\<close>; \<open>Signer = None\<close> is the nil signer
  left behind by a key that could not be read or parsed.\<close>

record auth =
  User :: string
  Signer :: "string option"

text \<open>The manager. The driver itself touches one field, \<open>AlwaysIncludeNumber\<close>; the
  repository the manager was opened on is the field \<open>repo\<close>, of a type the driver never
  looks into. What \<open>NewManager\<close> returns is a manager also when it comes with an error:
  the driver calls \<open>CheckRemote\<close> on it and assigns to its field before it looks at the
  error. A nil pointer in its place, on which these steps would panic, is not modelled.\<close>

record 'r Manager =
  AlwaysIncludeNumber :: bool
  repo :: 'r

text \<open>What a run does to the outside, in order: text on stdout and stderr, zerolog
  records (level, message, attached error), and the calls of the manager's methods that
  reach the repository or the remote, each with the error it returned.\<close>

datatype call =
    CheckRemote_call string
  | CreateTag_call string string string string
  | PushTagToRemote_call string string auth

datatype level = DebugLevel | ErrorLevel | FatalLevel

datatype event =
    Stdout string
  | Stderr string
  | Log level string error
  | Called call error

text \<open>The variables of \<open>main\<close> that \<open>flag.Parse()\<close> has filled in: \<open>modules\<close> holds the
  values of \<open>--component\<close>, \<open>args\<close> the positional arguments \<open>flag.Args()\<close>. The default
  of \<open>--ssh-key\<close> is built from the home directory before the flags are parsed.\<close>

record flags =
  modules :: "string list"
  args :: "string list"
  remote :: string
  message :: string
  user :: string
  email :: string
  sshKeyPath :: string
  verbose :: bool
  dryRun :: bool
  doPush :: bool
  semVer :: bool
  incMajor :: bool
  incMinor :: bool
  incPatch :: bool
  showVersion :: bool

text \<open>The libraries the driver calls besides the release package: \<open>user.Current()\<close>
  (home directory, error), \<open>config.LoadConfig(config.GlobalScope)\<close> (user name, user
  e-mail, error), \<open>os.Getwd()\<close>, \<open>ioutil.ReadFile\<close> and \<open>ssh.ParsePrivateKey\<close> (both with
  their errors dropped, as \<open>loadKeys\<close> drops them).\<close>

record env =
  Current :: "string \<times> error"
  LoadConfig :: "(string \<times> string) \<times> error"
  Getwd :: "string \<times> error"
  ReadFile :: "string \<Rightarrow> string"
  ParsePrivateKey :: "string \<Rightarrow> string option"

text \<open>The methods of the release package the driver calls. The methods that only read
  (\<open>CheckRemote\<close>, \<open>GetBranch\<close>, \<open>GetProposedDate\<close>, \<open>GetProposedSemName\<close>) are functions of
  the manager; \<open>CreateTag\<close> and \<open>PushTagToRemote\<close> also return the manager after the call.
  \<open>IncrementVersion\<close> updates the proposed version in place, here it returns the updated
  version. The tag reference \<open>CreateTag\<close> returns is dropped by the driver and left out.\<close>

record ('r, 'v) release_pkg =
  NewManager :: "string \<Rightarrow> string \<Rightarrow> string \<Rightarrow> 'r Manager \<times> error"
  CheckRemote :: "'r Manager \<Rightarrow> string \<Rightarrow> error"
  GetBranch :: "'r Manager \<Rightarrow> string \<times> error"
  GetProposedDate :: "'r Manager \<Rightarrow> string"
  GetProposedSemName :: "'r Manager \<Rightarrow> 'v"
  IncrementVersion :: "'v \<Rightarrow> bool \<Rightarrow> bool \<Rightarrow> bool \<Rightarrow> 'v"
  FormatRelease :: "'v \<Rightarrow> string \<Rightarrow> string \<Rightarrow> string"
  CreateTag :: "'r Manager \<Rightarrow> string \<Rightarrow> string \<Rightarrow> string \<Rightarrow> string \<Rightarrow> 'r Manager \<times> error"
  PushTagToRemote :: "'r Manager \<Rightarrow> string \<Rightarrow> string \<Rightarrow> auth \<Rightarrow> 'r Manager \<times> string \<times> error"

text \<open>How a run ends: the exit code of the process, what it did, and the manager it held
  last (\<open>None\<close> when it ended before \<open>NewManager\<close>).\<close>

record 'r outcome =
  exit_code :: int
  trace :: "event list"
  final :: "'r Manager option"

subsection \<open>Helpers of main.go\<close>

definition incrementFormat :: string where
  "incrementFormat = ''%03d''"

definition version :: string where
  "version = ''dev''"

definition getVersionString :: string where
  "getVersionString = ''release '' @ version"

definition loadKeys :: "env \<Rightarrow> string \<Rightarrow> auth" where
  "loadKeys en path = \<lparr>User = ''git'', Signer = ParsePrivateKey en (ReadFile en path)\<rparr>"

text \<open>\<open>homeDir\<close>: the home directory of the current user; when the user cannot be
  looked up the process ends there (\<open>log.Fatal\<close>), with exit code 1.\<close>

definition homeDir :: "env \<Rightarrow> (event \<times> int) + string" where
  "homeDir en =
     (case Current en of
        (home, Some e) \<Rightarrow> Inl (Log FatalLevel ''unable to load home dir'' (Some e), 1)
      | (home, None) \<Rightarrow> Inr home)"

text \<open>\<open>strings.Join\<close>.\<close>

fun Join :: "string list \<Rightarrow> string \<Rightarrow> string" where
  "Join [] sep = []"
| "Join [x] sep = x"
| "Join (x # y # ys) sep = x @ sep @ Join (y # ys) sep"

text \<open>Modelled from the spec: \<open>release.CheckIfError\<close> is not among the sources. The
  specification makes a failing remote check fatal before any tag is created, and the
  driver writes no code of its own after the call to stop the run, so a non-nil error
  ends the process here: the message is logged with the error and the exit code is 1.
  \<open>None\<close> means the run goes on.\<close>

definition CheckIfError :: "error \<Rightarrow> string \<Rightarrow> (event \<times> int) option" where
  "CheckIfError err msg =
     (case err of None \<Rightarrow> None | Some e \<Rightarrow> Some (Log FatalLevel msg (Some e), 1))"

subsection \<open>\<open>main\<close>, lines 73 to 131: home directory, flags, identity, manager\<close>

text \<open>Lines 84 to 90: the positional arguments are appended to the components; an empty
  list becomes the one unnamed module.\<close>

definition collect_modules :: "flags \<Rightarrow> string list" where
  "collect_modules fl =
     (let ms = modules fl @ args fl in if length ms = 0 then ms @ [''''] else ms)"

text \<open>Lines 101 to 115: user and e-mail default to the global git configuration; when it
  cannot be loaded only a debug record is written, which the global level lets through
  under \<open>--verbose\<close> only.\<close>

definition identity :: "env \<Rightarrow> flags \<Rightarrow> string \<times> string \<times> event list" where
  "identity en fl =
     (case LoadConfig en of
        ((cfg_name, cfg_email), None) \<Rightarrow>
          (if user fl = '''' then cfg_name else user fl,
           if email fl = '''' then cfg_email else email fl,
           [])
      | (_, Some e) \<Rightarrow>
          (user fl, email fl,
           if verbose fl
           then [Log DebugLevel
                  ''unable to load git config, this is only a problem if you're using annotated tags''
                  (Some e)]
           else []))"

definition remote_problem :: "string \<Rightarrow> string" where
  "remote_problem r =
     ''problem with remote '' @ [CHR 0x27] @ r @ [CHR 0x27]
       @ '', cannot push, omit --push or fix the remote''"

text \<open>The result is either the outcome of a run that ended here, or what the rest of
  \<open>main\<close> goes on with: the manager, the modules, user, e-mail and the trace so far.
  The home directory is asked for on line 73, for the default of \<open>--ssh-key\<close>, before the
  flags are parsed: a failure there ends the run before \<open>--version\<close> is looked at.
  The error of \<open>NewManager\<close> is looked at only on line 131, after the remote check and
  after the assignment to \<open>AlwaysIncludeNumber\<close>; the \<open>err\<close> of the remote check is a
  variable of its own block.\<close>

definition prepare ::
  "('r, 'v) release_pkg \<Rightarrow> env \<Rightarrow> flags \<Rightarrow>
     'r outcome + ('r Manager \<times> string list \<times> string \<times> string \<times> event list)" where
  "prepare pkg en fl =
     (case homeDir en of
        Inl (ev, code) \<Rightarrow> Inl \<lparr>exit_code = code, trace = [ev], final = None\<rparr>
      | Inr home \<Rightarrow>
          (if showVersion fl
           then Inl \<lparr>exit_code = 0, trace = [Stderr (getVersionString @ ''\<newline>'')],
                     final = None\<rparr>
           else
             (let ms = collect_modules fl;
                  (usr, eml, tr0) = identity en fl;
                  (cwd, err0) = Getwd en
              in (case CheckIfError err0 ''failed to get current dir'' of
                    Some (ev, code) \<Rightarrow>
                      Inl \<lparr>exit_code = code, trace = tr0 @ [ev], final = None\<rparr>
                  | None \<Rightarrow>
                      (let (rm, err) = NewManager pkg cwd ''%Y.%m.'' incrementFormat;
                           chk = (if doPush fl then CheckRemote pkg rm (remote fl) else None);
                           tr1 = tr0 @ (if doPush fl
                                        then [Called (CheckRemote_call (remote fl)) chk] else [])
                       in (case CheckIfError chk (remote_problem (remote fl)) of
                             Some (ev, code) \<Rightarrow>
                               Inl \<lparr>exit_code = code, trace = tr1 @ [ev], final = Some rm\<rparr>
                           | None \<Rightarrow>
                               (let rm' = rm\<lparr>AlwaysIncludeNumber := True\<rparr>
                                in (case CheckIfError err ''failed to load release manager'' of
                                      Some (ev, code) \<Rightarrow>
                                        Inl \<lparr>exit_code = code, trace = tr1 @ [ev],
                                             final = Some rm'\<rparr>
                                    | None \<Rightarrow> Inr (rm', ms, usr, eml, tr1)))))))))"

subsection \<open>\<open>main\<close>, lines 133 to 153: the proposed identifiers\<close>

text \<open>Lines 137 to 143. A branch that cannot be read is fatal (\<open>log.Fatal\<close>): the result
  is then the message.\<close>

fun semver_loop ::
  "('r, 'v) release_pkg \<Rightarrow> 'r Manager \<Rightarrow> 'v \<Rightarrow> string list \<Rightarrow> string list \<Rightarrow> string + string list" where
  "semver_loop pkg rm proposedSemVer [] newReleases = Inr newReleases"
| "semver_loop pkg rm proposedSemVer (module # rest) newReleases =
     (case GetBranch pkg rm of
        (branch, Some e) \<Rightarrow> Inl (''Unable to get current branch: '' @ e)
      | (branch, None) \<Rightarrow>
          semver_loop pkg rm proposedSemVer rest
            (newReleases @ [FormatRelease pkg proposedSemVer module branch]))"

text \<open>Lines 146 to 152.\<close>

fun date_loop :: "string \<Rightarrow> string list \<Rightarrow> string list \<Rightarrow> string list" where
  "date_loop proposedDate [] newReleases = newReleases"
| "date_loop proposedDate (module # rest) newReleases =
     date_loop proposedDate rest
       (newReleases @ [if module = '''' then proposedDate else proposedDate @ ''-'' @ module])"

definition propose ::
  "('r, 'v) release_pkg \<Rightarrow> flags \<Rightarrow> 'r Manager \<Rightarrow> string list \<Rightarrow> string + string list" where
  "propose pkg fl rm ms =
     (if semVer fl
      then semver_loop pkg rm
             (IncrementVersion pkg (GetProposedSemName pkg rm) (incMajor fl) (incMinor fl) (incPatch fl))
             ms []
      else Inr (date_loop (GetProposedDate pkg rm) ms []))"

subsection \<open>\<open>main\<close>, lines 155 to 200: dry run, or create and push\<close>

definition plural :: "string list \<Rightarrow> string" where
  "plural newReleases = (if length newReleases > 1 then ''s'' else '''')"

definition dry_run_text :: "string list \<Rightarrow> string" where
  "dry_run_text newReleases =
     ''would create release'' @ plural newReleases @ '':\<newline>''
       @ Join newReleases '', '' @ ''\<newline>''"

definition push_hint :: "string \<Rightarrow> string" where
  "push_hint newRelease =
     ''the tag will still be in the local repo you can delete it with `git tag -d ''
       @ newRelease @ ''` or push it with `git push <REMOTE> '' @ newRelease
       @ ''` once you have resolved the issue preventing push\<newline>''"

text \<open>The body of the loop of lines 165 to 186 for one identifier: the manager after it,
  whether it sets \<open>failedCreate\<close>, and what it did.\<close>

definition release_one ::
  "('r, 'v) release_pkg \<Rightarrow> env \<Rightarrow> flags \<Rightarrow> string \<Rightarrow> string \<Rightarrow> 'r Manager \<Rightarrow> string \<Rightarrow>
     'r Manager \<times> bool \<times> event list" where
  "release_one pkg en fl usr eml rm newRelease =
     (case CreateTag pkg rm newRelease (message fl) usr eml of
        (rm1, Some e) \<Rightarrow>
          (rm1, True,
           [Called (CreateTag_call newRelease (message fl) usr eml) (Some e),
            Log ErrorLevel (''failed to create tag '' @ newRelease @ '': '' @ e) None])
      | (rm1, None) \<Rightarrow>
          (let created =
                 [Called (CreateTag_call newRelease (message fl) usr eml) None,
                  Stdout (''created release: '' @ newRelease @ ''\<newline>'')]
           in if doPush fl
              then
                (let keys = loadKeys en (sshKeyPath fl)
                 in case PushTagToRemote pkg rm1 newRelease (remote fl) keys of
                      (rm2, msg, None) \<Rightarrow>
                        (rm2, False,
                         created @
                         [Called (PushTagToRemote_call newRelease (remote fl) keys) None,
                          Stdout (msg @ ''\<newline>'')])
                    | (rm2, msg, Some e) \<Rightarrow>
                        (rm2, True,
                         created @
                         [Called (PushTagToRemote_call newRelease (remote fl) keys) (Some e),
                          Log ErrorLevel msg (Some e),
                          Stdout (push_hint newRelease)]))
              else (rm1, False, created)))"

fun create_loop ::
  "('r, 'v) release_pkg \<Rightarrow> env \<Rightarrow> flags \<Rightarrow> string \<Rightarrow> string \<Rightarrow> string list \<Rightarrow>
     'r Manager \<times> bool \<times> event list \<Rightarrow> 'r Manager \<times> bool \<times> event list" where
  "create_loop pkg en fl usr eml [] st = st"
| "create_loop pkg en fl usr eml (newRelease # rest) (rm, failedCreate, tr) =
     (case release_one pkg en fl usr eml rm newRelease of
        (rm', failed, evs) \<Rightarrow>
          create_loop pkg en fl usr eml rest
            (rm', (if failed then True else failedCreate), tr @ evs))"

definition aggregate_failure :: "flags \<Rightarrow> string" where
  "aggregate_failure fl =
     ''at least one tag failed to create'' @ (if doPush fl then ''/push'' else '''')
       @ '', see above. exiting...''"

definition not_pushed_text :: "flags \<Rightarrow> string list \<Rightarrow> event list" where
  "not_pushed_text fl newReleases =
     [Stdout (''tag'' @ plural newReleases @ '' ('' @ Join newReleases '', ''
                @ '') not pushed (--push not set), push it with:\<newline>''),
      Stdout ('' git push '' @ remote fl @ '' '' @ Join newReleases '' '' @ ''\<newline>'')]"

text \<open>Lines 155 to 200, from the manager and the identifiers on.\<close>

definition deliver ::
  "('r, 'v) release_pkg \<Rightarrow> env \<Rightarrow> flags \<Rightarrow> string \<Rightarrow> string \<Rightarrow> 'r Manager \<Rightarrow> event list \<Rightarrow>
     string list \<Rightarrow> 'r outcome" where
  "deliver pkg en fl usr eml rm tr newReleases =
     (if dryRun fl
      then \<lparr>exit_code = 0, trace = tr @ [Stdout (dry_run_text newReleases)], final = Some rm\<rparr>
      else
        (case create_loop pkg en fl usr eml newReleases (rm, False, tr) of
           (rm', failedCreate, tr') \<Rightarrow>
             if failedCreate
             then \<lparr>exit_code = 1,
                   trace = tr' @ [Log FatalLevel (aggregate_failure fl) None],
                   final = Some rm'\<rparr>
             else \<lparr>exit_code = 0,
                   trace = tr' @ (if doPush fl then [] else not_pushed_text fl newReleases),
                   final = Some rm'\<rparr>))"

definition main :: "('r, 'v) release_pkg \<Rightarrow> env \<Rightarrow> flags \<Rightarrow> 'r outcome" where
  "main pkg en fl =
     (case prepare pkg en fl of
        Inl out \<Rightarrow> out
      | Inr (rm, ms, usr, eml, tr) \<Rightarrow>
          (case propose pkg fl rm ms of
             Inl fatal \<Rightarrow>
               \<lparr>exit_code = 1, trace = tr @ [Log FatalLevel fatal None], final = Some rm\<rparr>
           | Inr newReleases \<Rightarrow> deliver pkg en fl usr eml rm tr newReleases))"

section \<open>The release package, from the specification\<close>

text \<open>
  One implementation of the package, written from the specification of the release
  manager: the repository accessor, the date scheme, the semantic-version scheme and the
  tag lifecycle. Runs of \<open>main\<close> are evaluated on it.
\<close>

subsection \<open>Repository\<close>

text \<open>Modelled from the spec: the data model of the specification. A tag is a named
  pointer at a commit, lightweight (no annotation) or annotated (message, tagger name,
  tagger e-mail). A repository has its tags, the commit and the branch of HEAD (\<open>None\<close>
  when HEAD is detached), the name of its primary branch, and its configured remotes,
  each with the tags it holds. The clock is part of the value, so that the date is
  whatever is injected: year and month.\<close>

record tag =
  tag_name :: string
  target :: nat
  annotation :: "(string \<times> string \<times> string) option"

record repository =
  tags :: "tag list"
  head_commit :: nat
  head_branch :: "string option"
  primary_branch :: string
  remotes :: "(string \<times> (string \<times> nat) list) list"
  today :: "nat \<times> nat"

text \<open>Modelled from the spec: the place of the repository on disk; \<open>Open\<close> succeeds on the
  root of the work tree and on every path below it.\<close>

record world =
  root :: string
  content :: repository

definition empty_repository :: repository where
  "empty_repository =
     \<lparr>tags = [], head_commit = 0, head_branch = None, primary_branch = ''main'',
      remotes = [], today = (0, 0)\<rparr>"

definition ListTags :: "repository \<Rightarrow> string list" where
  "ListTags r = map tag_name (tags r)"

subsection \<open>Decimal numbers\<close>

definition digit :: "nat \<Rightarrow> char" where
  "digit n = ''0123456789'' ! (n mod 10)"

fun show_nat :: "nat \<Rightarrow> string" where
  "show_nat n = (if n < 10 then [digit n] else show_nat (n div 10) @ [digit n])"

declare show_nat.simps [simp del]

text \<open>\<open>%0wd\<close>: at least \<open>w\<close> digits, filled with zeros on the left.\<close>

definition pad :: "nat \<Rightarrow> nat \<Rightarrow> string" where
  "pad w n = replicate (w - length (show_nat n)) (CHR ''0'') @ show_nat n"

definition is_digit :: "char \<Rightarrow> bool" where
  "is_digit c = (c \<in> set ''0123456789'')"

definition digit_val :: "char \<Rightarrow> nat" where
  "digit_val c = length (takeWhile (\<lambda>d. d \<noteq> c) ''0123456789'')"

definition parse_nat :: "string \<Rightarrow> nat option" where
  "parse_nat s =
     (if s \<noteq> [] \<and> list_all is_digit s
      then Some (foldl (\<lambda>acc c. 10 * acc + digit_val c) 0 s)
      else None)"

definition has_prefix :: "string \<Rightarrow> string \<Rightarrow> bool" where
  "has_prefix s p = (take (length p) s = p)"

subsection \<open>Repository accessor\<close>

text \<open>Modelled from the spec: \<open>Open(path)\<close> fails with NotARepository unless the path or an
  ancestor of it holds a repository. The specification does not say which manager comes
  with the error; here it is a manager on the empty repository.\<close>

definition spec_NewManager :: "world \<Rightarrow> string \<Rightarrow> string \<Rightarrow> string \<Rightarrow> repository Manager \<times> error" where
  "spec_NewManager w path fmt inc =
     (if path = root w \<or> has_prefix path (root w @ ''/'')
      then (\<lparr>AlwaysIncludeNumber = False, repo = content w\<rparr>, None)
      else (\<lparr>AlwaysIncludeNumber = False, repo = empty_repository\<rparr>, Some ''not a repository''))"

text \<open>Modelled from the spec: \<open>CheckRemote(name)\<close> fails with RemoteNotConfigured unless the
  remote is configured.\<close>

definition spec_CheckRemote :: "repository Manager \<Rightarrow> string \<Rightarrow> error" where
  "spec_CheckRemote rm name =
     (if name \<in> set (map fst (remotes (repo rm))) then None else Some ''remote not configured'')"

text \<open>Modelled from the spec: \<open>CurrentBranch()\<close> fails with DetachedOrUnknownBranch when
  HEAD is not on a named branch.\<close>

definition spec_GetBranch :: "repository Manager \<Rightarrow> string \<times> error" where
  "spec_GetBranch rm =
     (case head_branch (repo rm) of
        Some b \<Rightarrow> (b, None)
      | None \<Rightarrow> ('''', Some ''detached or unknown branch''))"

subsection \<open>Date scheme\<close>

text \<open>Modelled from the spec: \<open>ProposeDateRelease(today, existingTags)\<close>. The date is
  formatted as \<open>YYYY.MM.\<close>; the tags that start with this prefix are scanned, the rest of
  each is read as a number (a rest that is not a number is passed over), and the number of
  the release is the largest one found plus one, or one. It is written with three digits.
  For a module the tags scanned are those that end with \<open>-module\<close> after the number, and
  the identifier ends with it too.\<close>

definition date_prefix :: "nat \<times> nat \<Rightarrow> string" where
  "date_prefix d = pad 4 (fst d) @ ''.'' @ pad 2 (snd d) @ ''.''"

definition module_suffix :: "string \<Rightarrow> string" where
  "module_suffix m = (if m = '''' then '''' else ''-'' @ m)"

definition running_number :: "string \<Rightarrow> string \<Rightarrow> string \<Rightarrow> nat option" where
  "running_number prefix suffix t =
     (if has_prefix t prefix \<and> length prefix + length suffix \<le> length t
          \<and> drop (length t - length suffix) t = suffix
      then parse_nat (take (length t - length prefix - length suffix) (drop (length prefix) t))
      else None)"

definition next_number :: "string \<Rightarrow> string \<Rightarrow> string list \<Rightarrow> nat" where
  "next_number prefix suffix ts =
     (case List.map_filter (running_number prefix suffix) ts of
        [] \<Rightarrow> 1
      | n # ns \<Rightarrow> fold max ns n + 1)"

definition ProposeDateRelease :: "nat \<times> nat \<Rightarrow> string list \<Rightarrow> string \<Rightarrow> string" where
  "ProposeDateRelease d existingTags m =
     date_prefix d
       @ pad 3 (next_number (date_prefix d) (module_suffix m) existingTags)
       @ module_suffix m"

text \<open>The method the driver calls takes no module: it is the proposal for the unnamed
  release.\<close>

definition spec_GetProposedDate :: "repository Manager \<Rightarrow> string" where
  "spec_GetProposedDate rm = ProposeDateRelease (today (repo rm)) (ListTags (repo rm)) ''''"

subsection \<open>Semantic-version scheme\<close>

text \<open>Modelled from the spec: the proposed version, a triple of numbers.\<close>

record SemVer =
  major :: nat
  minor :: nat
  patch :: nat

fun split_on :: "char \<Rightarrow> string \<Rightarrow> string list" where
  "split_on c [] = [[]]"
| "split_on c (x # xs) =
     (if x = c then [] # split_on c xs
      else (case split_on c xs of
              [] \<Rightarrow> [[x]]
            | p # ps \<Rightarrow> (x # p) # ps))"

text \<open>Modelled from the spec: a tag has the shape of a semantic version when, after an
  optional leading \<open>v\<close> and before an optional suffix that starts with \<open>-\<close> or \<open>+\<close>, it is
  three numbers separated by dots.\<close>

definition parse_semver :: "string \<Rightarrow> SemVer option" where
  "parse_semver t =
     (let body = (case t of c # cs \<Rightarrow> (if c = CHR ''v'' then cs else t) | [] \<Rightarrow> t);
          core = takeWhile (\<lambda>c. c \<noteq> CHR ''-'' \<and> c \<noteq> CHR ''+'') body
      in case map parse_nat (split_on (CHR ''.'') core) of
           [Some a, Some b, Some c] \<Rightarrow> Some \<lparr>major = a, minor = b, patch = c\<rparr>
         | _ \<Rightarrow> None)"

definition semver_less :: "SemVer \<Rightarrow> SemVer \<Rightarrow> bool" where
  "semver_less a b =
     (major a < major b
      \<or> (major a = major b \<and> (minor a < minor b \<or> (minor a = minor b \<and> patch a < patch b))))"

text \<open>Modelled from the spec: \<open>ProposeSemVer(existingTags)\<close>, the largest version among the
  tags that parse, \<open>0.0.0\<close> when none does.\<close>

definition ProposeSemVer :: "string list \<Rightarrow> SemVer" where
  "ProposeSemVer existingTags =
     fold (\<lambda>v best. if semver_less best v then v else best)
       (List.map_filter parse_semver existingTags)
       \<lparr>major = 0, minor = 0, patch = 0\<rparr>"

definition spec_GetProposedSemName :: "repository Manager \<Rightarrow> SemVer" where
  "spec_GetProposedSemName rm = ProposeSemVer (ListTags (repo rm))"

text \<open>Modelled from the spec: at most one component is incremented, the highest one asked
  for, and the components below it are reset to zero.\<close>

definition spec_IncrementVersion :: "SemVer \<Rightarrow> bool \<Rightarrow> bool \<Rightarrow> bool \<Rightarrow> SemVer" where
  "spec_IncrementVersion v bumpMajor bumpMinor bumpPatch =
     (if bumpMajor then \<lparr>major = major v + 1, minor = 0, patch = 0\<rparr>
      else if bumpMinor then \<lparr>major = major v, minor = minor v + 1, patch = 0\<rparr>
      else if bumpPatch then \<lparr>major = major v, minor = minor v, patch = patch v + 1\<rparr>
      else v)"

definition show_semver :: "SemVer \<Rightarrow> string" where
  "show_semver v = show_nat (major v) @ ''.'' @ show_nat (minor v) @ ''.'' @ show_nat (patch v)"

text \<open>Modelled from the spec: \<open>FormatRelease(module, branch)\<close>: the version, then the module
  when there is one, then the branch when there is one and it is not the primary branch.\<close>

definition spec_FormatRelease :: "string \<Rightarrow> SemVer \<Rightarrow> string \<Rightarrow> string \<Rightarrow> string" where
  "spec_FormatRelease primary v m branch =
     show_semver v @ module_suffix m
       @ (if branch \<noteq> '''' \<and> branch \<noteq> primary then ''-'' @ branch else '''')"

subsection \<open>Tag lifecycle\<close>

text \<open>Modelled from the spec: \<open>CreateTag(name, message, authorName, authorEmail)\<close>. A name
  that is taken fails with TagAlreadyExists and leaves the repository as it is; a message
  without a name or an e-mail fails with MissingIdentity; with the three of them empty the
  tag is lightweight, otherwise annotated. The tag points at the commit of HEAD.\<close>

definition spec_CreateTag ::
  "repository Manager \<Rightarrow> string \<Rightarrow> string \<Rightarrow> string \<Rightarrow> string \<Rightarrow> repository Manager \<times> error" where
  "spec_CreateTag rm name msg authorName authorEmail =
     (let r = repo rm in
      if name \<in> set (ListTags r) then (rm, Some ''tag already exists'')
      else if msg \<noteq> '''' \<and> (authorName = '''' \<or> authorEmail = '''')
      then (rm, Some ''missing identity'')
      else
        (let ann = (if msg = '''' \<and> authorName = '''' \<and> authorEmail = '''' then None
                    else Some (msg, authorName, authorEmail));
             t = \<lparr>tag_name = name, target = head_commit r, annotation = ann\<rparr>
         in (rm\<lparr>repo := r\<lparr>tags := tags r @ [t]\<rparr>\<rparr>, None)))"

fun set_remote ::
  "string \<Rightarrow> (string \<times> nat) list \<Rightarrow> (string \<times> (string \<times> nat) list) list \<Rightarrow>
     (string \<times> (string \<times> nat) list) list" where
  "set_remote name refs [] = []"
| "set_remote name refs ((n, old) # rest) =
     (if n = name then (n, refs) # rest else (n, old) # set_remote name refs rest)"

text \<open>Modelled from the spec: \<open>PushTagToRemote(name, remoteName, auth)\<close> pushes the one tag.
  It fails, with a message and an error, when the remote is not configured, when the
  credential is unusable (transport or authentication failure), when the tag does not
  exist, and with RemoteTagConflict when the remote has the name at another commit. The
  local tags are never touched.\<close>

definition spec_PushTagToRemote ::
  "repository Manager \<Rightarrow> string \<Rightarrow> string \<Rightarrow> auth \<Rightarrow> repository Manager \<times> string \<times> error" where
  "spec_PushTagToRemote rm name remoteName a =
     (let r = repo rm in
      case map_of (remotes r) remoteName of
        None \<Rightarrow> (rm, ''unable to push '' @ name, Some ''remote not configured'')
      | Some refs \<Rightarrow>
          (case Signer a of
             None \<Rightarrow> (rm, ''unable to push '' @ name, Some ''push transport failure'')
           | Some key \<Rightarrow>
               (case map_of (map (\<lambda>t. (tag_name t, target t)) (tags r)) name of
                  None \<Rightarrow> (rm, ''unable to push '' @ name, Some ''no such tag'')
                | Some c \<Rightarrow>
                    (case map_of refs name of
                       Some c' \<Rightarrow>
                         (if c' = c then (rm, ''pushed '' @ name @ '' to '' @ remoteName, None)
                          else (rm, ''unable to push '' @ name, Some ''remote tag conflict''))
                     | None \<Rightarrow>
                         (rm\<lparr>repo := r\<lparr>remotes := set_remote remoteName (refs @ [(name, c)]) (remotes r)\<rparr>\<rparr>,
                          ''pushed '' @ name @ '' to '' @ remoteName, None)))))"

subsection \<open>The package on a given disk\<close>

definition spec_pkg :: "world \<Rightarrow> (repository, SemVer) release_pkg" where
  "spec_pkg w =
     \<lparr>NewManager = spec_NewManager w,
      CheckRemote = spec_CheckRemote,
      GetBranch = spec_GetBranch,
      GetProposedDate = spec_GetProposedDate,
      GetProposedSemName = spec_GetProposedSemName,
      IncrementVersion = spec_IncrementVersion,
      FormatRelease = spec_FormatRelease (primary_branch (content w)),
      CreateTag = spec_CreateTag,
      PushTagToRemote = spec_PushTagToRemote\<rparr>"

section \<open>Observations and reference runs\<close>

subsection \<open>Reading a trace\<close>

text \<open>The calls that change the repository or the remote.\<close>

fun mutating :: "call \<Rightarrow> bool" where
  "mutating (CheckRemote_call r) = False"
| "mutating (CreateTag_call n m u e) = True"
| "mutating (PushTagToRemote_call n r a) = True"

fun is_mutation :: "event \<Rightarrow> bool" where
  "is_mutation (Called c r) = mutating c"
| "is_mutation ev = False"

fun is_fatal :: "event \<Rightarrow> bool" where
  "is_fatal (Log FatalLevel m e) = True"
| "is_fatal ev = False"

fun stdout_text :: "event \<Rightarrow> string option" where
  "stdout_text (Stdout s) = Some s"
| "stdout_text ev = None"

text \<open>What was printed on stdout, one entry per print.\<close>

definition stdout_of :: "event list \<Rightarrow> string list" where
  "stdout_of tr = List.map_filter stdout_text tr"

fun requested_tag :: "event \<Rightarrow> string option" where
  "requested_tag (Called (CreateTag_call n m u e) r) = Some n"
| "requested_tag ev = None"

text \<open>The names \<open>CreateTag\<close> was called with, in order, whatever the calls returned.\<close>

definition tag_requests :: "event list \<Rightarrow> string list" where
  "tag_requests tr = List.map_filter requested_tag tr"

fun mutation :: "event \<Rightarrow> (call \<times> error) option" where
  "mutation (Called c r) = (if mutating c then Some (c, r) else None)"
| "mutation ev = None"

text \<open>The calls of \<open>CreateTag\<close> and \<open>PushTagToRemote\<close> a run made, in order, each with the
  error it returned.\<close>

definition mutations :: "event list \<Rightarrow> (call \<times> error) list" where
  "mutations tr = List.map_filter mutation tr"

text \<open>A call that returned an error.\<close>

definition failed_attempt :: "call \<times> error \<Rightarrow> bool" where
  "failed_attempt a = (snd a \<noteq> None)"


subsection \<open>The attempts a run owes\<close>

text \<open>Following the specification's words on the tag lifecycle and on failures: the
  identifiers are processed one after the other; each gets one tag creation; the push is
  attempted only after the creation succeeded, and only under \<open>--push\<close>; a creation or a
  push that fails does not stop the processing of the remaining identifiers. Written on
  the package alone, from the manager the run starts with: the calls that are due, in
  order, each with the error the package returns for it. It is here to be compared with
  \<open>main\<close>, which it is not a part of.\<close>

fun attempts ::
  "('r, 'v) release_pkg \<Rightarrow> env \<Rightarrow> flags \<Rightarrow> string \<Rightarrow> string \<Rightarrow> 'r Manager \<Rightarrow> string list \<Rightarrow>
     (call \<times> error) list" where
  "attempts pkg en fl usr eml rm [] = []"
| "attempts pkg en fl usr eml rm (n # ns) =
     (let created = CreateTag pkg rm n (message fl) usr eml;
          creation = (CreateTag_call n (message fl) usr eml, snd created)
      in if snd created = None \<and> doPush fl
         then (let keys = loadKeys en (sshKeyPath fl);
                   pushed = PushTagToRemote pkg (fst created) n (remote fl) keys
               in creation # (PushTagToRemote_call n (remote fl) keys, snd (snd pushed))
                    # attempts pkg en fl usr eml (fst pushed) ns)
         else creation # attempts pkg en fl usr eml (fst created) ns)"

declare attempts.simps [simp del]

subsection \<open>A run that scans again in every iteration\<close>

text \<open>Following the specification's words on multi-module runs: the tag set is read
  again between iterations, each proposal being made on the repository as the creations
  of the earlier modules left it. This is the date scheme of \<open>main\<close> with the scan and
  the creation moved into one loop; the result is the list of identifiers proposed. It is
  here to be compared with \<open>main\<close>, which it is not a part of.\<close>

fun rescanning_run ::
  "('r, 'v) release_pkg \<Rightarrow> flags \<Rightarrow> string \<Rightarrow> string \<Rightarrow> 'r Manager \<Rightarrow> string list \<Rightarrow>
     string list \<Rightarrow> string list" where
  "rescanning_run pkg fl usr eml rm [] proposed = proposed"
| "rescanning_run pkg fl usr eml rm (module # rest) proposed =
     (let proposedDate = GetProposedDate pkg rm;
          newRelease = (if module = '''' then proposedDate else proposedDate @ ''-'' @ module)
      in rescanning_run pkg fl usr eml
           (fst (CreateTag pkg rm newRelease (message fl) usr eml)) rest
           (proposed @ [newRelease]))"

subsection \<open>A repository and a command line\<close>

text \<open>A repository in January 2024 with two releases of the month, a remote \<open>origin\<close>
  that has them, and HEAD on the primary branch; a machine without a global git
  configuration and without a usable key; the command line \<open>release api web\<close>.\<close>

definition ex_repository :: repository where
  "ex_repository =
     \<lparr>tags = [\<lparr>tag_name = ''2024.01.001'', target = 5, annotation = None\<rparr>,
              \<lparr>tag_name = ''2024.01.002'', target = 7, annotation = None\<rparr>],
      head_commit = 8, head_branch = Some ''main'', primary_branch = ''main'',
      remotes = [(''origin'', [(''2024.01.001'', 5), (''2024.01.002'', 7)])],
      today = (2024, 1)\<rparr>"

definition ex_world :: world where
  "ex_world = \<lparr>root = ''/src/app'', content = ex_repository\<rparr>"

text \<open>The same place with no tag yet, with tags of the semantic-version scheme on a
  feature branch, and with those tags and a detached HEAD.\<close>

definition fresh_world :: world where
  "fresh_world =
     \<lparr>root = ''/src/app'',
      content = ex_repository\<lparr>tags := [], remotes := [(''origin'', [])]\<rparr>\<rparr>"

definition semver_world :: world where
  "semver_world =
     \<lparr>root = ''/src/app'',
      content = ex_repository
        \<lparr>tags := [\<lparr>tag_name = ''1.2.3'', target = 5, annotation = None\<rparr>,
                  \<lparr>tag_name = ''v1.4.7'', target = 7, annotation = None\<rparr>,
                  \<lparr>tag_name = ''release-x'', target = 7, annotation = None\<rparr>],
         head_branch := Some ''feature-x''\<rparr>\<rparr>"


definition ex_env :: env where
  "ex_env =
     \<lparr>Current = (''/home/ci'', None),
      LoadConfig = (('''', ''''), Some ''no config''),
      Getwd = (''/src/app'', None),
      ReadFile = (\<lambda>p. ''''),
      ParsePrivateKey = (\<lambda>k. if k = '''' then None else Some k)\<rparr>"

definition ex_flags :: flags where
  "ex_flags =
     \<lparr>modules = [], args = [''api'', ''web''], remote = ''origin'', message = '''',
      user = '''', email = '''', sshKeyPath = ''/home/ci/.ssh/id_rsa'', verbose = False,
      dryRun = False, doPush = False, semVer = False, incMajor = False, incMinor = False,
      incPatch = False, showVersion = False\<rparr>"

text \<open>The managers \<open>main\<close> works with in these places.\<close>

definition ex_manager :: "repository Manager" where
  "ex_manager = \<lparr>AlwaysIncludeNumber = True, repo = ex_repository\<rparr>"

definition fresh_manager :: "repository Manager" where
  "fresh_manager = \<lparr>AlwaysIncludeNumber = True, repo = content fresh_world\<rparr>"

definition semver_manager :: "repository Manager" where
  "semver_manager = \<lparr>AlwaysIncludeNumber = True, repo = content semver_world\<rparr>"


text \<open>Variations of the command line and of the working directory: a dry run, a push,
  a push to a remote that is not configured, a push with a module named twice, the
  semantic-version scheme, a dry run of it, two unnamed modules, and a working directory
  outside the repository.\<close>

definition dry_flags :: flags where
  "dry_flags = ex_flags\<lparr>dryRun := True\<rparr>"

definition push_flags :: flags where
  "push_flags = ex_flags\<lparr>doPush := True\<rparr>"

definition upstream_flags :: flags where
  "upstream_flags = ex_flags\<lparr>doPush := True, remote := ''upstream''\<rparr>"

definition thrice_flags :: flags where
  "thrice_flags = ex_flags\<lparr>args := [''api'', ''api'', ''web''], doPush := True\<rparr>"


definition semver_flags :: flags where
  "semver_flags = ex_flags\<lparr>semVer := True, incMinor := True\<rparr>"

definition unnamed_flags :: flags where
  "unnamed_flags = ex_flags\<lparr>args := ['''', '''']\<rparr>"

definition outside_env :: env where
  "outside_env = ex_env\<lparr>Getwd := (''/tmp'', None)\<rparr>"

section \<open>Properties of the driver\<close>

subsection \<open>The loops and the phases of \<open>main\<close>\<close>

lemma date_loop_map:
  "date_loop d ms acc = acc @ map (\<lambda>m. if m = '''' then d else d @ ''-'' @ m) ms"
  by (induction ms arbitrary: acc) auto

lemma semver_loop_Inr:
  "semver_loop pkg rm v ms acc = Inr ids \<Longrightarrow>
     ids = acc @ map (\<lambda>m. FormatRelease pkg v m (fst (GetBranch pkg rm))) ms"
proof (induction ms arbitrary: acc)
  case Nil
  then show ?case by simp
next
  case (Cons m ms)
  obtain b e where gb: "GetBranch pkg rm = (b, e)" by (cases "GetBranch pkg rm")
  from Cons.prems gb have e: "e = None" by (cases e) auto
  from Cons.prems gb e
  have "semver_loop pkg rm v ms (acc @ [FormatRelease pkg v m b]) = Inr ids" by simp
  from Cons.IH [OF this] gb show ?case by simp
qed

lemma tag_requests_append: "tag_requests (xs @ ys) = tag_requests xs @ tag_requests ys"
  by (simp add: tag_requests_def List.map_filter_def)

lemma mutations_append: "mutations (xs @ ys) = mutations xs @ mutations ys"
  by (simp add: mutations_def List.map_filter_def)

lemma stdout_of_append: "stdout_of (xs @ ys) = stdout_of xs @ stdout_of ys"
  by (simp add: stdout_of_def List.map_filter_def)

lemma stdout_of_Cons [simp]:
  "stdout_of [] = []"
  "stdout_of (Stdout s # tr) = s # stdout_of tr"
  "stdout_of (Stderr s # tr) = stdout_of tr"
  "stdout_of (Log l m e # tr) = stdout_of tr"
  "stdout_of (Called c r # tr) = stdout_of tr"
  by (simp_all add: stdout_of_def)

lemma tag_requests_fatal [simp]: "tag_requests [Log l m e] = []" "tag_requests [] = []"
  by (simp_all add: tag_requests_def)

lemma mutations_fatal [simp]: "mutations [Log l m e] = []" "mutations [] = []"
  by (simp_all add: mutations_def)

lemma no_mutation_mutations: "\<not> list_ex is_mutation tr \<Longrightarrow> mutations tr = []"
proof (induction tr)
  case Nil
  show ?case by simp
next
  case (Cons ev tr)
  then show ?case by (cases ev) (auto simp: mutations_def)
qed

lemma release_one_requests:
  "release_one pkg en fl usr eml rm n = (rm', f, evs) \<Longrightarrow> tag_requests evs = [n]"
  by (auto simp: release_one_def tag_requests_def Let_def
           split: prod.splits option.splits if_splits)

lemma release_one_no_fatal:
  "release_one pkg en fl usr eml rm n = (rm', f, evs) \<Longrightarrow> \<not> list_ex is_fatal evs"
  by (auto simp: release_one_def Let_def split: prod.splits option.splits if_splits)

lemma release_one_failed:
  "release_one pkg en fl usr eml rm n = (rm', f, evs) \<Longrightarrow>
     f = list_ex failed_attempt (mutations evs)"
  by (auto simp: release_one_def Let_def mutations_def failed_attempt_def
           split: prod.splits option.splits if_splits)

text \<open>One turn of the loop makes the calls that are due for its identifier, and leaves
  the manager the remaining identifiers are due on.\<close>

lemma release_one_attempts:
  "release_one pkg en fl usr eml rm n = (rm', f, evs) \<Longrightarrow>
     attempts pkg en fl usr eml rm (n # ns) = mutations evs @ attempts pkg en fl usr eml rm' ns"
  by (auto simp: release_one_def Let_def mutations_def attempts.simps
           split: prod.splits option.splits if_splits)



lemma create_loop_acc:
  "create_loop pkg en fl usr eml ids (rm, f, tr) =
     (case create_loop pkg en fl usr eml ids (rm, False, []) of
        (rm', f', evs) \<Rightarrow> (rm', f \<or> f', tr @ evs))"
proof (induction ids arbitrary: rm f tr)
  case Nil
  show ?case by simp
next
  case (Cons n ids)
  obtain rm1 f1 ev1 where r: "release_one pkg en fl usr eml rm n = (rm1, f1, ev1)"
    by (cases "release_one pkg en fl usr eml rm n") auto
  obtain rm2 f2 ev2 where l: "create_loop pkg en fl usr eml ids (rm1, False, []) = (rm2, f2, ev2)"
    by (cases "create_loop pkg en fl usr eml ids (rm1, False, [])") auto
  have a: "create_loop pkg en fl usr eml ids (rm1, (if f1 then True else f), tr @ ev1)
             = (rm2, (if f1 then True else f) \<or> f2, (tr @ ev1) @ ev2)"
    using Cons.IH [of rm1 "if f1 then True else f" "tr @ ev1"] l by simp
  have b: "create_loop pkg en fl usr eml ids (rm1, (if f1 then True else False), [] @ ev1)
             = (rm2, (if f1 then True else False) \<or> f2, ([] @ ev1) @ ev2)"
    using Cons.IH [of rm1 "if f1 then True else False" "[] @ ev1"] l by simp
  show ?case using r a b by auto
qed

lemma create_loop_Cons:
  "release_one pkg en fl usr eml rm n = (rm1, f1, ev1) \<Longrightarrow>
   create_loop pkg en fl usr eml ids (rm1, False, []) = (rm2, f2, ev2) \<Longrightarrow>
   create_loop pkg en fl usr eml (n # ids) (rm, False, []) = (rm2, f1 \<or> f2, ev1 @ ev2)"
  using create_loop_acc [of pkg en fl usr eml ids rm1 "if f1 then True else False" "[] @ ev1"]
  by auto

lemma create_loop_from:
  "create_loop pkg en fl usr eml ids (rm, False, []) = (rm', f', evs) \<Longrightarrow>
   create_loop pkg en fl usr eml ids (rm, False, tr) = (rm', f', tr @ evs)"
  using create_loop_acc [of pkg en fl usr eml ids rm False tr] by simp

lemma create_loop_requests:
  "create_loop pkg en fl usr eml ids (rm, False, []) = (rm', f', evs) \<Longrightarrow>
     tag_requests evs = ids"
proof (induction ids arbitrary: rm rm' f' evs)
  case Nil
  then show ?case by (simp add: tag_requests_def)
next
  case (Cons n ids)
  obtain rm1 f1 ev1 where r: "release_one pkg en fl usr eml rm n = (rm1, f1, ev1)"
    by (cases "release_one pkg en fl usr eml rm n") auto
  obtain rm2 f2 ev2 where l: "create_loop pkg en fl usr eml ids (rm1, False, []) = (rm2, f2, ev2)"
    by (cases "create_loop pkg en fl usr eml ids (rm1, False, [])") auto
  from create_loop_Cons [OF r l] Cons.prems have evs: "evs = ev1 @ ev2" by simp
  have "tag_requests ev1 = [n]" by (rule release_one_requests [OF r])
  moreover have "tag_requests ev2 = ids" by (rule Cons.IH [OF l])
  ultimately show ?case by (simp add: evs tag_requests_append)
qed

lemma create_loop_no_fatal:
  "create_loop pkg en fl usr eml ids (rm, False, []) = (rm', f', evs) \<Longrightarrow>
     \<not> list_ex is_fatal evs"
proof (induction ids arbitrary: rm rm' f' evs)
  case Nil
  then show ?case by simp
next
  case (Cons n ids)
  obtain rm1 f1 ev1 where r: "release_one pkg en fl usr eml rm n = (rm1, f1, ev1)"
    by (cases "release_one pkg en fl usr eml rm n") auto
  obtain rm2 f2 ev2 where l: "create_loop pkg en fl usr eml ids (rm1, False, []) = (rm2, f2, ev2)"
    by (cases "create_loop pkg en fl usr eml ids (rm1, False, [])") auto
  from create_loop_Cons [OF r l] Cons.prems have evs: "evs = ev1 @ ev2" by simp
  show ?case using release_one_no_fatal [OF r] Cons.IH [OF l] by (simp add: evs)
qed

text \<open>The loop makes exactly the calls that are due, and its flag says whether one of
  them failed.\<close>

lemma create_loop_attempts:
  "create_loop pkg en fl usr eml ids (rm, False, []) = (rm', f', evs) \<Longrightarrow>
     mutations evs = attempts pkg en fl usr eml rm ids"
proof (induction ids arbitrary: rm rm' f' evs)
  case Nil
  then show ?case by (simp add: attempts.simps)
next
  case (Cons n ids)
  obtain rm1 f1 ev1 where r: "release_one pkg en fl usr eml rm n = (rm1, f1, ev1)"
    by (cases "release_one pkg en fl usr eml rm n") auto
  obtain rm2 f2 ev2 where l: "create_loop pkg en fl usr eml ids (rm1, False, []) = (rm2, f2, ev2)"
    by (cases "create_loop pkg en fl usr eml ids (rm1, False, [])") auto
  from create_loop_Cons [OF r l] Cons.prems have evs: "evs = ev1 @ ev2" by simp
  show ?case
    using release_one_attempts [OF r, of ids] Cons.IH [OF l]
    by (simp add: evs mutations_append)
qed

lemma create_loop_failed:
  "create_loop pkg en fl usr eml ids (rm, False, []) = (rm', f', evs) \<Longrightarrow>
     f' = list_ex failed_attempt (mutations evs)"
proof (induction ids arbitrary: rm rm' f' evs)
  case Nil
  then show ?case by simp
next
  case (Cons n ids)
  obtain rm1 f1 ev1 where r: "release_one pkg en fl usr eml rm n = (rm1, f1, ev1)"
    by (cases "release_one pkg en fl usr eml rm n") auto
  obtain rm2 f2 ev2 where l: "create_loop pkg en fl usr eml ids (rm1, False, []) = (rm2, f2, ev2)"
    by (cases "create_loop pkg en fl usr eml ids (rm1, False, [])") auto
  from create_loop_Cons [OF r l] Cons.prems
  have evs: "evs = ev1 @ ev2" and f: "f' = (f1 \<or> f2)" by simp_all
  show ?case
    using release_one_failed [OF r] Cons.IH [OF l] by (simp add: evs f mutations_append)
qed



lemma identity_trace:
  "snd (snd (identity en fl)) = [] \<or> (\<exists>m e. snd (snd (identity en fl)) = [Log DebugLevel m e])"
  by (auto simp: identity_def split: prod.splits option.splits)

lemma identity_quiet:
  "\<not> list_ex is_fatal (snd (snd (identity en fl)))"
  "\<not> list_ex is_mutation (snd (snd (identity en fl)))"
  "stdout_of (snd (snd (identity en fl))) = []"
  "tag_requests (snd (snd (identity en fl))) = []"
  using identity_trace [of en fl]
  by (auto simp: stdout_of_def tag_requests_def)

lemma prepare_Inr:
  assumes "prepare pkg en fl = Inr (rm, ms, usr, eml, tr)"
  shows "tr = snd (snd (identity en fl))
             @ (if doPush fl then [Called (CheckRemote_call (remote fl)) None] else [])"
    and "rm = (fst (NewManager pkg (fst (Getwd en)) ''%Y.%m.'' incrementFormat))\<lparr>AlwaysIncludeNumber := True\<rparr>"
    and "ms = collect_modules fl"
    and "usr = fst (identity en fl)"
    and "eml = fst (snd (identity en fl))"
    and "\<not> showVersion fl"
  using assms
  by (auto simp: prepare_def homeDir_def CheckIfError_def Let_def
           split: if_splits prod.splits option.splits sum.splits)

lemma prepare_Inr_quiet:
  assumes "prepare pkg en fl = Inr (rm, ms, usr, eml, tr)"
  shows "\<not> list_ex is_fatal tr" "\<not> list_ex is_mutation tr"
    "stdout_of tr = []" "tag_requests tr = []" "mutations tr = []"
  using identity_quiet [of en fl] no_mutation_mutations [of "snd (snd (identity en fl))"]
  by (auto simp: prepare_Inr(1) [OF assms] stdout_of_def tag_requests_def mutations_def
      List.map_filter_def)

lemma prepare_Inl:
  assumes "prepare pkg en fl = Inl out"
  shows "\<not> list_ex is_mutation (trace out)"
    and "stdout_of (trace out) = []"
    and "final out = None \<or> (\<exists>rm. final out = Some rm \<and>
           repo rm = repo (fst (NewManager pkg (fst (Getwd en)) ''%Y.%m.'' incrementFormat)))"
    and "exit_code out = (if snd (Current en) = None \<and> showVersion fl then 0 else 1)"
  using assms identity_quiet [of en fl]
  by (auto simp: prepare_def homeDir_def CheckIfError_def Let_def stdout_of_append
           split: if_splits prod.splits option.splits sum.splits)

lemma main_prepared:
  assumes "prepare pkg en fl = Inr (rm, ms, usr, eml, tr)" and "propose pkg fl rm ms = Inr ids"
  shows "main pkg en fl = deliver pkg en fl usr eml rm tr ids"
  using assms by (simp add: main_def)


lemma deliver_dry:
  "dryRun fl \<Longrightarrow> deliver pkg en fl usr eml rm tr ids =
     \<lparr>exit_code = 0, trace = tr @ [Stdout (dry_run_text ids)], final = Some rm\<rparr>"
  by (simp add: deliver_def)

lemma deliver_real:
  assumes "\<not> dryRun fl"
    and "create_loop pkg en fl usr eml ids (rm, False, []) = (rm', f', evs)"
  shows "deliver pkg en fl usr eml rm tr ids =
     (if f' then \<lparr>exit_code = 1, trace = tr @ evs @ [Log FatalLevel (aggregate_failure fl) None],
                   final = Some rm'\<rparr>
      else \<lparr>exit_code = 0,
            trace = tr @ evs @ (if doPush fl then [] else not_pushed_text fl ids),
            final = Some rm'\<rparr>)"
  using assms(1) create_loop_from [OF assms(2), of tr] by (simp add: deliver_def)

lemma not_pushed_text_quiet:
  "\<not> list_ex is_fatal (not_pushed_text fl ids)"
  "tag_requests (not_pushed_text fl ids) = []"
  "mutations (not_pushed_text fl ids) = []"
  by (simp_all add: not_pushed_text_def tag_requests_def mutations_def)

subsection \<open>The package of the specification keeps tags\<close>




subsection \<open>Runs on the example\<close>

lemma pad_3: "pad 3 (Suc 0) = ''001''" "pad 3 2 = ''002''" "pad 3 3 = ''003''"
  by (simp_all add: pad_def show_nat.simps digit_def numeral_2_eq_2)

lemma parse_nat_3: "parse_nat ''001'' = Some 1" "parse_nat ''002'' = Some 2"
  by (simp_all add: parse_nat_def is_digit_def digit_val_def)

lemma ex_date_prefix: "date_prefix (today ex_repository) = ''2024.01.''"
  by (simp add: ex_repository_def date_prefix_def pad_def show_nat.simps digit_def)

lemma next_number_ex:
  "next_number ''2024.01.'' '''' [] = 1"
  "next_number ''2024.01.'' '''' [''2024.01.001''] = 2"
  "next_number ''2024.01.'' '''' [''2024.01.001'', ''2024.01.002''] = 3"
  by (simp_all add: next_number_def running_number_def has_prefix_def parse_nat_3)

lemma ex_proposed_date:
  "GetProposedDate (spec_pkg ex_world) ex_manager = ''2024.01.003''"
proof -
  have "ListTags ex_repository = [''2024.01.001'', ''2024.01.002'']"
    by (simp add: ex_repository_def ListTags_def)
  then show ?thesis
    by (simp add: spec_pkg_def spec_GetProposedDate_def ProposeDateRelease_def ex_manager_def
        ex_date_prefix next_number_ex module_suffix_def pad_3)
qed

lemma fresh_proposed_date:
  "GetProposedDate (spec_pkg fresh_world) fresh_manager = ''2024.01.001''"
  "GetProposedDate (spec_pkg fresh_world)
     (fst (CreateTag (spec_pkg fresh_world) fresh_manager ''2024.01.001'' '''' '''' ''''))
     = ''2024.01.002''"
proof -
  have d: "date_prefix (today (content fresh_world)) = ''2024.01.''"
    using ex_date_prefix by (simp add: fresh_world_def ex_repository_def)
  have t: "ListTags (content fresh_world) = []"
    by (simp add: fresh_world_def ListTags_def)
  show "GetProposedDate (spec_pkg fresh_world) fresh_manager = ''2024.01.001''"
    by (simp add: spec_pkg_def spec_GetProposedDate_def ProposeDateRelease_def fresh_manager_def
        d t next_number_ex module_suffix_def pad_3)
  have c: "fst (CreateTag (spec_pkg fresh_world) fresh_manager ''2024.01.001'' '''' '''' '''')
             = fresh_manager\<lparr>repo := (content fresh_world)
                 \<lparr>tags := [\<lparr>tag_name = ''2024.01.001'', target = head_commit (content fresh_world),
                             annotation = None\<rparr>]\<rparr>\<rparr>"
    using t by (simp add: spec_pkg_def spec_CreateTag_def fresh_manager_def Let_def ListTags_def)
  show "GetProposedDate (spec_pkg fresh_world)
          (fst (CreateTag (spec_pkg fresh_world) fresh_manager ''2024.01.001'' '''' '''' ''''))
          = ''2024.01.002''"
    by (simp add: c) (simp add: spec_pkg_def spec_GetProposedDate_def ProposeDateRelease_def
        ListTags_def d next_number_ex module_suffix_def pad_3)
qed

lemmas prepare_defs =
  prepare_def homeDir_def spec_pkg_def identity_def collect_modules_def CheckIfError_def
  spec_NewManager_def spec_CheckRemote_def has_prefix_def ex_env_def ex_flags_def ex_world_def
  ex_manager_def ex_repository_def

lemmas deliver_defs =
  deliver_def release_one_def spec_pkg_def spec_CreateTag_def spec_PushTagToRemote_def
  loadKeys_def ListTags_def Let_def ex_env_def ex_flags_def ex_manager_def ex_repository_def

lemma ex_home: "snd (Current ex_env) = None"
  by (simp add: ex_env_def)

lemma ex_prepare:
  "prepare (spec_pkg ex_world) ex_env ex_flags = Inr (ex_manager, [''api'', ''web''], '''', '''', [])"
  by (simp add: prepare_defs)

lemma ex_opened:
  "NewManager (spec_pkg ex_world) (fst (Getwd ex_env)) ''%Y.%m.'' incrementFormat
     = (\<lparr>AlwaysIncludeNumber = False, repo = ex_repository\<rparr>, None)"
  by (simp add: spec_pkg_def spec_NewManager_def ex_env_def ex_world_def)

lemma dry_prepare:
  "prepare (spec_pkg ex_world) ex_env dry_flags = Inr (ex_manager, [''api'', ''web''], '''', '''', [])"
  by (simp add: prepare_defs dry_flags_def)

lemma dry_propose:
  "propose (spec_pkg ex_world) dry_flags ex_manager [''api'', ''web'']
     = Inr [''2024.01.003-api'', ''2024.01.003-web'']"
  by (simp add: propose_def dry_flags_def ex_flags_def ex_proposed_date)





lemma thrice_prepare:
  "prepare (spec_pkg ex_world) ex_env thrice_flags
     = Inr (ex_manager, [''api'', ''api'', ''web''], '''', '''',
            [Called (CheckRemote_call ''origin'') None])"
  by (simp add: prepare_defs thrice_flags_def)

lemma thrice_propose:
  "propose (spec_pkg ex_world) thrice_flags ex_manager [''api'', ''api'', ''web'']
     = Inr [''2024.01.003-api'', ''2024.01.003-api'', ''2024.01.003-web'']"
  by (simp add: propose_def thrice_flags_def ex_flags_def ex_proposed_date)

lemma thrice_attempts:
  "attempts (spec_pkg ex_world) ex_env thrice_flags '''' '''' ex_manager
       [''2024.01.003-api'', ''2024.01.003-api'', ''2024.01.003-web'']
     = [(CreateTag_call ''2024.01.003-api'' '''' '''' '''', None),
        (PushTagToRemote_call ''2024.01.003-api'' ''origin'' \<lparr>User = ''git'', Signer = None\<rparr>,
         Some ''push transport failure''),
        (CreateTag_call ''2024.01.003-api'' '''' '''' '''', Some ''tag already exists''),
        (CreateTag_call ''2024.01.003-web'' '''' '''' '''', None),
        (PushTagToRemote_call ''2024.01.003-web'' ''origin'' \<lparr>User = ''git'', Signer = None\<rparr>,
         Some ''push transport failure'')]"
  by (simp add: attempts.simps spec_pkg_def spec_CreateTag_def spec_PushTagToRemote_def
      loadKeys_def ListTags_def Let_def ex_env_def ex_flags_def ex_manager_def ex_repository_def thrice_flags_def)

lemma unnamed_prepare:
  "prepare (spec_pkg fresh_world) ex_env unnamed_flags
     = Inr (fresh_manager, ['''', ''''], '''', '''', [])"
  by (simp add: prepare_defs unnamed_flags_def fresh_world_def fresh_manager_def)

lemma unnamed_propose:
  "propose (spec_pkg fresh_world) unnamed_flags fresh_manager ['''', '''']
     = Inr [''2024.01.001'', ''2024.01.001'']"
  by (simp add: propose_def unnamed_flags_def ex_flags_def fresh_proposed_date)

lemma unnamed_run:
  "trace (main (spec_pkg fresh_world) ex_env unnamed_flags)
     = [Called (CreateTag_call ''2024.01.001'' '''' '''' '''') None,
        Stdout ''created release: 2024.01.001\<newline>'',
        Called (CreateTag_call ''2024.01.001'' '''' '''' '''') (Some ''tag already exists''),
        Log ErrorLevel ''failed to create tag 2024.01.001: tag already exists'' None,
        Log FatalLevel (aggregate_failure unnamed_flags) None]"
  "exit_code (main (spec_pkg fresh_world) ex_env unnamed_flags) = 1"
  by (simp_all add: main_def unnamed_prepare unnamed_propose)
     (simp_all add: deliver_defs unnamed_flags_def fresh_manager_def fresh_world_def)

lemma semver_propose:
  "propose (spec_pkg semver_world) semver_flags semver_manager [''api'', ''web'']
     = Inr [''1.5.0-api-feature-x'', ''1.5.0-web-feature-x'']"
  by code_simp




subsection \<open>The claims\<close>

text \<open>
  Claim C1, as amended. In the date scheme the modules of a run share one proposal:
  \<open>GetProposedDate\<close> is called once, without a module, and every identifier is its result,
  alone for the unnamed module and followed by \<open>-module\<close> otherwise. The module takes no
  part in finding the number, so two modules proposed on the same repository and date
  receive the same number.
\<close>

theorem date_number_shared_by_modules:
  assumes "\<not> semVer fl"
  shows "propose pkg fl rm ms =
           Inr (map (\<lambda>m. if m = '''' then GetProposedDate pkg rm
                         else GetProposedDate pkg rm @ ''-'' @ m) ms)"
  using assms by (simp add: propose_def date_loop_map)

text \<open>On the example repository, whose next number is 3, both modules are given it.\<close>

theorem date_number_shared_by_modules_witness:
  "\<not> semVer ex_flags \<and>
   propose (spec_pkg ex_world) ex_flags ex_manager [''api'', ''web'']
     = Inr [''2024.01.003-api'', ''2024.01.003-web'']"
proof -
  have h: "\<not> semVer ex_flags" by (simp add: ex_flags_def)
  show ?thesis
    using h date_number_shared_by_modules [OF h, of "spec_pkg ex_world" ex_manager "[''api'', ''web'']"]
    by (simp add: ex_proposed_date)
qed

text \<open>
  The claim as it was stated: with the tag \<open>2024.01.001-api\<close>, the module \<open>api\<close> is
  proposed \<open>2024.01.002-api\<close> and the module \<open>web\<close> \<open>2024.01.001-web\<close>. Whatever
  \<open>GetProposedDate\<close> returns on that repository, the loop of the date scheme cannot
  produce both.
\<close>

theorem independent_counters_counterexample:
  "\<not> (\<exists>d. date_loop d [''api''] [] = [''2024.01.002-api'']
          \<and> date_loop d [''web''] [] = [''2024.01.001-web''])"
  by auto

text \<open>
  Claim C2, as amended. In a run of the date scheme that creates tags, all the
  identifiers are computed before the first tag is created: \<open>GetProposedDate\<close> is called
  once, on the manager as \<open>NewManager\<close> opened it, and the names \<open>CreateTag\<close> is called
  with are that one proposal with each module appended, in order. The tags created for
  earlier modules have no part in the proposals for later ones.
\<close>

theorem proposals_precede_creation:
  assumes p: "prepare pkg en fl = Inr (rm, ms, usr, eml, tr)"
    and "\<not> semVer fl" and real: "\<not> dryRun fl"
  shows "repo rm = repo (fst (NewManager pkg (fst (Getwd en)) ''%Y.%m.'' incrementFormat)) \<and>
         tag_requests (trace (main pkg en fl)) =
           map (\<lambda>m. if m = '''' then GetProposedDate pkg rm
                    else GetProposedDate pkg rm @ ''-'' @ m) ms"
proof -
  let ?ids = "map (\<lambda>m. if m = '''' then GetProposedDate pkg rm
                    else GetProposedDate pkg rm @ ''-'' @ m) ms"
  have q: "propose pkg fl rm ms = Inr ?ids"
    using assms(2) by (simp add: propose_def date_loop_map)
  obtain rm' f' evs where l: "create_loop pkg en fl usr eml ?ids (rm, False, []) = (rm', f', evs)"
    by (cases "create_loop pkg en fl usr eml ?ids (rm, False, [])") auto
  have "tag_requests (trace (main pkg en fl)) = ?ids"
    using prepare_Inr_quiet(4) [OF p] create_loop_requests [OF l] not_pushed_text_quiet(2) [of fl ?ids]
    by (simp add: main_prepared [OF p q] deliver_real [OF real l] tag_requests_append)
  then show ?thesis using prepare_Inr(2) [OF p] by simp
qed

text \<open>On the example repository the run asks for the two identifiers proposed at its start.\<close>

theorem proposals_precede_creation_witness:
  "prepare (spec_pkg ex_world) ex_env ex_flags = Inr (ex_manager, [''api'', ''web''], '''', '''', []) \<and>
   \<not> semVer ex_flags \<and> \<not> dryRun ex_flags \<and>
   tag_requests (trace (main (spec_pkg ex_world) ex_env ex_flags))
     = [''2024.01.003-api'', ''2024.01.003-web'']"
proof -
  have h: "\<not> semVer ex_flags" "\<not> dryRun ex_flags" by (simp_all add: ex_flags_def)
  show ?thesis
    using ex_prepare h proposals_precede_creation [OF ex_prepare h]
    by (simp add: ex_proposed_date)
qed

text \<open>
  The claim as it was stated: the proposal for a later module takes the tags created for
  earlier modules into account. On a repository without tags, a command line with two
  empty module names asks twice for \<open>2024.01.001\<close> and the second creation fails, so
  that the exit code is 1, where a run that scans in every iteration proposes
  \<open>2024.01.002\<close> the second time.
\<close>

theorem rescanning_counterexample:
  "tag_requests (trace (main (spec_pkg fresh_world) ex_env unnamed_flags))
     = [''2024.01.001'', ''2024.01.001''] \<and>
   rescanning_run (spec_pkg fresh_world) unnamed_flags '''' '''' fresh_manager ['''', ''''] []
     = [''2024.01.001'', ''2024.01.002''] \<and>
   exit_code (main (spec_pkg fresh_world) ex_env unnamed_flags) = 1"
proof -
  have m: "message unnamed_flags = ''''" by (simp add: unnamed_flags_def ex_flags_def)
  have "rescanning_run (spec_pkg fresh_world) unnamed_flags '''' '''' fresh_manager ['''', ''''] []
          = [''2024.01.001'', ''2024.01.002'']"
    by (simp add: Let_def m fresh_proposed_date)
  then show ?thesis
    by (simp add: unnamed_run tag_requests_def)
qed

text \<open>
  Claim C3. Under \<open>--dry-run\<close> nothing is changed: no run calls \<open>CreateTag\<close> or
  \<open>PushTagToRemote\<close>, and the repository of the manager the run ends with is the one
  \<open>NewManager\<close> opened, so its tags are the same before and after.
\<close>

theorem dry_run_no_mutation:
  assumes "dryRun fl"
  shows "\<not> list_ex is_mutation (trace (main pkg en fl)) \<and>
         (final (main pkg en fl) = None \<or>
          (\<exists>rm. final (main pkg en fl) = Some rm \<and>
                repo rm = repo (fst (NewManager pkg (fst (Getwd en)) ''%Y.%m.'' incrementFormat))))"
proof (cases "prepare pkg en fl")
  case (Inl out)
  then show ?thesis using prepare_Inl(1,3) [OF Inl] by (simp add: main_def)
next
  case (Inr x)
  obtain rm ms usr eml tr where x: "x = (rm, ms, usr, eml, tr)" by (cases x) auto
  have p: "prepare pkg en fl = Inr (rm, ms, usr, eml, tr)" using Inr x by simp
  show ?thesis
  proof (cases "propose pkg fl rm ms")
    case (Inl fatal)
    then show ?thesis
      using p prepare_Inr_quiet(2) [OF p] prepare_Inr(2) [OF p] by (simp add: main_def)
  next
    case (Inr ids)
    show ?thesis
      using assms prepare_Inr_quiet(2) [OF p] prepare_Inr(2) [OF p]
      by (simp add: main_prepared [OF p Inr] deliver_dry)
  qed
qed

text \<open>The dry run on the example: no call that changes anything, and the repository as opened.\<close>

theorem dry_run_no_mutation_witness:
  "dryRun dry_flags \<and>
   \<not> list_ex is_mutation (trace (main (spec_pkg ex_world) ex_env dry_flags)) \<and>
   final (main (spec_pkg ex_world) ex_env dry_flags) = Some ex_manager \<and>
   repo ex_manager
     = repo (fst (NewManager (spec_pkg ex_world) (fst (Getwd ex_env)) ''%Y.%m.'' incrementFormat))"
proof -
  have h: "dryRun dry_flags" by (simp add: dry_flags_def)
  have f: "final (main (spec_pkg ex_world) ex_env dry_flags) = Some ex_manager"
    using h by (simp add: main_def dry_prepare dry_propose deliver_def)
  show ?thesis
    using h f dry_run_no_mutation [OF h, of "spec_pkg ex_world" ex_env]
    by (simp add: ex_opened ex_manager_def)
qed




text \<open>
  Claim C5. A failure for one module does not end the run. A run that creates tags makes
  exactly the calls that are due on the package, in order: a tag creation for every
  identifier and, under \<open>--push\<close>, a push for every identifier whose creation succeeded,
  whatever failed before. \<open>CreateTag\<close> is so called with every identifier. A fatal
  record is written once when one of the calls failed and not at all otherwise; after a
  failure it is the last thing the run does, it is the aggregate message, and the exit
  code is 1.
\<close>

theorem failures_do_not_abort:
  assumes p: "prepare pkg en fl = Inr (rm, ms, usr, eml, tr)"
    and q: "propose pkg fl rm ms = Inr ids"
    and real: "\<not> dryRun fl"
  shows "mutations (trace (main pkg en fl)) = attempts pkg en fl usr eml rm ids \<and>
         tag_requests (trace (main pkg en fl)) = ids \<and>
         length (filter is_fatal (trace (main pkg en fl)))
           = (if list_ex failed_attempt (attempts pkg en fl usr eml rm ids) then 1 else 0) \<and>
         (if list_ex failed_attempt (attempts pkg en fl usr eml rm ids)
          then last (trace (main pkg en fl))
                 = Log FatalLevel
                     (''at least one tag failed to create''
                        @ (if doPush fl then ''/push'' else '''') @ '', see above. exiting...'')
                     None
               \<and> exit_code (main pkg en fl) = 1
          else exit_code (main pkg en fl) = 0)"
proof -
  obtain rm' f' evs where l: "create_loop pkg en fl usr eml ids (rm, False, []) = (rm', f', evs)"
    by (cases "create_loop pkg en fl usr eml ids (rm, False, [])") auto
  have nf: "filter is_fatal tr = []" "filter is_fatal evs = []"
       "filter is_fatal (not_pushed_text fl ids) = []"
    using prepare_Inr_quiet(1) [OF p] create_loop_no_fatal [OF l] not_pushed_text_quiet(1) [of fl ids]
    by (simp_all add: filter_empty_conv list_ex_iff)
  have a: "mutations evs = attempts pkg en fl usr eml rm ids"
    by (rule create_loop_attempts [OF l])
  have f: "f' = list_ex failed_attempt (attempts pkg en fl usr eml rm ids)"
    using create_loop_failed [OF l] a by simp
  show ?thesis
    using prepare_Inr_quiet(4,5) [OF p] create_loop_requests [OF l]
      not_pushed_text_quiet(2,3) [of fl ids] nf a f
    by (simp add: main_prepared [OF p q] deliver_real [OF real l] tag_requests_append
        mutations_append aggregate_failure_def)
qed

text \<open>A push without a usable key, of a module named twice and a third one after it:
  the push of the first fails, the second creation fails, and the third is still created
  and its push attempted.\<close>

theorem failures_do_not_abort_witness:
  "prepare (spec_pkg ex_world) ex_env thrice_flags
     = Inr (ex_manager, [''api'', ''api'', ''web''], '''', '''',
            [Called (CheckRemote_call ''origin'') None]) \<and>
   propose (spec_pkg ex_world) thrice_flags ex_manager [''api'', ''api'', ''web'']
     = Inr [''2024.01.003-api'', ''2024.01.003-api'', ''2024.01.003-web''] \<and>
   \<not> dryRun thrice_flags \<and>
   mutations (trace (main (spec_pkg ex_world) ex_env thrice_flags))
     = [(CreateTag_call ''2024.01.003-api'' '''' '''' '''', None),
        (PushTagToRemote_call ''2024.01.003-api'' ''origin'' \<lparr>User = ''git'', Signer = None\<rparr>,
         Some ''push transport failure''),
        (CreateTag_call ''2024.01.003-api'' '''' '''' '''', Some ''tag already exists''),
        (CreateTag_call ''2024.01.003-web'' '''' '''' '''', None),
        (PushTagToRemote_call ''2024.01.003-web'' ''origin'' \<lparr>User = ''git'', Signer = None\<rparr>,
         Some ''push transport failure'')] \<and>
   length (filter is_fatal (trace (main (spec_pkg ex_world) ex_env thrice_flags))) = 1 \<and>
   exit_code (main (spec_pkg ex_world) ex_env thrice_flags) = 1"
proof -
  have r: "\<not> dryRun thrice_flags" by (simp add: thrice_flags_def ex_flags_def)
  show ?thesis
    using thrice_prepare thrice_propose r
      failures_do_not_abort [OF thrice_prepare thrice_propose r]
    by (simp add: thrice_attempts failed_attempt_def)
qed

text \<open>
  Claim C6. Under \<open>--push\<close> the remote is checked before any tag work. When the check
  fails the run ends with exit code 1, its last act is the fatal record about the remote,
  it has called neither \<open>CreateTag\<close> nor \<open>PushTagToRemote\<close>, and the manager is as
  \<open>NewManager\<close> returned it.
\<close>

theorem remote_checked_before_tags:
  assumes "snd (Current en) = None"
    and "\<not> showVersion fl" and "snd (Getwd en) = None" and "doPush fl"
    and "CheckRemote pkg (fst (NewManager pkg (fst (Getwd en)) ''%Y.%m.'' incrementFormat)) (remote fl) = Some e"
  shows "exit_code (main pkg en fl) = 1 \<and>
         \<not> list_ex is_mutation (trace (main pkg en fl)) \<and>
         final (main pkg en fl) = Some (fst (NewManager pkg (fst (Getwd en)) ''%Y.%m.'' incrementFormat)) \<and>
         last (trace (main pkg en fl)) = Log FatalLevel (remote_problem (remote fl)) (Some e)"
  using assms identity_quiet(2) [of en fl]
  by (auto simp: main_def prepare_def homeDir_def CheckIfError_def Let_def
           split: prod.splits option.splits)

text \<open>A push to a remote that is not configured, on the example repository.\<close>

theorem remote_checked_before_tags_witness:
  "snd (Current ex_env) = None \<and>
   \<not> showVersion upstream_flags \<and>
   snd (Getwd ex_env) = None \<and>
   doPush upstream_flags \<and>
   CheckRemote (spec_pkg ex_world)
       (fst (NewManager (spec_pkg ex_world) (fst (Getwd ex_env)) ''%Y.%m.'' incrementFormat))
       (remote upstream_flags)
     = Some ''remote not configured'' \<and>
   exit_code (main (spec_pkg ex_world) ex_env upstream_flags) = 1 \<and>
   \<not> list_ex is_mutation (trace (main (spec_pkg ex_world) ex_env upstream_flags)) \<and>
   final (main (spec_pkg ex_world) ex_env upstream_flags)
     = Some \<lparr>AlwaysIncludeNumber = False, repo = ex_repository\<rparr> \<and>
   last (trace (main (spec_pkg ex_world) ex_env upstream_flags))
     = Log FatalLevel (remote_problem ''upstream'') (Some ''remote not configured'')"
proof -
  have a: "\<not> showVersion upstream_flags" by (simp add: upstream_flags_def ex_flags_def)
  have b: "snd (Getwd ex_env) = None" by (simp add: ex_env_def)
  have c: "doPush upstream_flags" by (simp add: upstream_flags_def)
  have r: "remote upstream_flags = ''upstream''" by (simp add: upstream_flags_def)
  have d: "CheckRemote (spec_pkg ex_world)
             (fst (NewManager (spec_pkg ex_world) (fst (Getwd ex_env)) ''%Y.%m.'' incrementFormat))
             (remote upstream_flags) = Some ''remote not configured''"
    by (simp add: ex_opened r) (simp add: spec_pkg_def spec_CheckRemote_def ex_repository_def)
  show ?thesis
    using ex_home a b c d remote_checked_before_tags [OF ex_home a b c d]
    by (simp add: ex_opened r)
qed






text \<open>
  Claim C9. Under \<open>--push\<close>, when \<open>NewManager\<close> returns an error, \<open>CheckRemote\<close> is called
  on the manager that came with the error before that error is looked at, and how the run
  fails is decided by what the check returns: an error of the check ends the run with the
  record about the remote; the record \<open>failed to load release manager\<close> is written only
  when the check on that manager passes. Either way the exit code is 1.
\<close>

theorem remote_check_precedes_manager_error:
  assumes "snd (Current en) = None"
    and "\<not> showVersion fl" and "snd (Getwd en) = None" and "doPush fl"
    and "NewManager pkg (fst (Getwd en)) ''%Y.%m.'' incrementFormat = (rm0, Some e)"
  shows "trace (main pkg en fl) =
           snd (snd (identity en fl))
           @ [Called (CheckRemote_call (remote fl)) (CheckRemote pkg rm0 (remote fl)),
              (case CheckRemote pkg rm0 (remote fl) of
                 Some e' \<Rightarrow> Log FatalLevel (remote_problem (remote fl)) (Some e')
               | None \<Rightarrow> Log FatalLevel ''failed to load release manager'' (Some e))] \<and>
         exit_code (main pkg en fl) = 1"
  using assms
  by (auto simp: main_def prepare_def homeDir_def CheckIfError_def Let_def
           split: prod.splits option.splits)

text \<open>A push from a directory outside the repository: the remote check on the manager that came with the error fails, and its record is the one written.\<close>

theorem remote_check_precedes_manager_error_witness:
  "snd (Current outside_env) = None \<and>
   \<not> showVersion push_flags \<and>
   snd (Getwd outside_env) = None \<and>
   doPush push_flags \<and>
   NewManager (spec_pkg ex_world) (fst (Getwd outside_env)) ''%Y.%m.'' incrementFormat
     = (\<lparr>AlwaysIncludeNumber = False, repo = empty_repository\<rparr>, Some ''not a repository'') \<and>
   trace (main (spec_pkg ex_world) outside_env push_flags)
     = [Called (CheckRemote_call ''origin'') (Some ''remote not configured''),
        Log FatalLevel (remote_problem ''origin'') (Some ''remote not configured'')] \<and>
   exit_code (main (spec_pkg ex_world) outside_env push_flags) = 1"
proof -
  have h: "snd (Current outside_env) = None" by (simp add: outside_env_def ex_env_def)
  have a: "\<not> showVersion push_flags" by (simp add: push_flags_def ex_flags_def)
  have b: "snd (Getwd outside_env) = None" by (simp add: outside_env_def)
  have c: "doPush push_flags" by (simp add: push_flags_def)
  have d: "NewManager (spec_pkg ex_world) (fst (Getwd outside_env)) ''%Y.%m.'' incrementFormat
             = (\<lparr>AlwaysIncludeNumber = False, repo = empty_repository\<rparr>, Some ''not a repository'')"
    by (simp add: spec_pkg_def spec_NewManager_def outside_env_def ex_world_def has_prefix_def)
  have i: "snd (snd (identity outside_env push_flags)) = []"
    by (simp add: identity_def outside_env_def ex_env_def push_flags_def ex_flags_def)
  have r: "remote push_flags = ''origin''" by (simp add: push_flags_def ex_flags_def)
  have k: "CheckRemote (spec_pkg ex_world) \<lparr>AlwaysIncludeNumber = False, repo = empty_repository\<rparr>
             ''origin'' = Some ''remote not configured''"
    by (simp add: spec_pkg_def spec_CheckRemote_def empty_repository_def)
  show ?thesis
    using h a b c d remote_check_precedes_manager_error [OF h a b c d]
    by (simp add: i r k)
qed

text \<open>
  Claim C10. In the semantic-version scheme \<open>IncrementVersion\<close> is applied once, to the
  one proposed version, before the loop over the modules: every identifier of the run is
  \<open>FormatRelease\<close> of that same version and the same branch, and the identifiers differ
  only in the module given to \<open>FormatRelease\<close>.
\<close>

theorem semver_one_increment:
  assumes "semVer fl" and "propose pkg fl rm ms = Inr ids"
  shows "ids = map (\<lambda>m. FormatRelease pkg
                       (IncrementVersion pkg (GetProposedSemName pkg rm)
                          (incMajor fl) (incMinor fl) (incPatch fl))
                       m (fst (GetBranch pkg rm))) ms"
  using assms semver_loop_Inr [of pkg rm _ ms "[]" ids] by (simp add: propose_def)

text \<open>From the tags \<open>1.2.3\<close> and \<open>v1.4.7\<close>, with \<open>--inc-minor\<close>, on the branch \<open>feature-x\<close>.\<close>

theorem semver_one_increment_witness:
  "semVer semver_flags \<and>
   propose (spec_pkg semver_world) semver_flags semver_manager [''api'', ''web'']
     = Inr [''1.5.0-api-feature-x'', ''1.5.0-web-feature-x''] \<and>
   IncrementVersion (spec_pkg semver_world)
       (GetProposedSemName (spec_pkg semver_world) semver_manager)
       (incMajor semver_flags) (incMinor semver_flags) (incPatch semver_flags)
     = \<lparr>major = 1, minor = 5, patch = 0\<rparr> \<and>
   [''1.5.0-api-feature-x'', ''1.5.0-web-feature-x'']
     = map (\<lambda>m. FormatRelease (spec_pkg semver_world) \<lparr>major = 1, minor = 5, patch = 0\<rparr> m ''feature-x'')
         [''api'', ''web'']"
proof -
  have h: "semVer semver_flags" by (simp add: semver_flags_def)
  have v: "IncrementVersion (spec_pkg semver_world)
             (GetProposedSemName (spec_pkg semver_world) semver_manager)
             (incMajor semver_flags) (incMinor semver_flags) (incPatch semver_flags)
           = \<lparr>major = 1, minor = 5, patch = 0\<rparr>"
    by code_simp
  have b: "fst (GetBranch (spec_pkg semver_world) semver_manager) = ''feature-x''"
    by code_simp
  show ?thesis
    using h semver_propose v semver_one_increment [OF h semver_propose]
    by (simp add: b)
qed

end
